theory Spec2Isabelle
  imports Complex_Main
begin

section \<open>RoadGateway: rate limiting, quotas, authentication and metrics\<close>

text \<open>
  A shallow embedding of \<^verbatim>\<open>src/middleware/rate-limiter-advanced.ts\<close> (the three
  limiters, the quota manager and the composite limiter), of
  \<^verbatim>\<open>src/middleware/rate-limiter.ts\<close>, \<^verbatim>\<open>src/middleware/auth.ts\<close> and of the
  metrics collector.

  Conventions of the embedding.
  \<^item> A JavaScript number that the code divides or compares with a fraction is a \<open>real\<close>
    and its arithmetic is the exact one. The source computes in IEEE-754 doubles: the
    two agree where every operand and intermediate result is a finite number that a
    double holds exactly (integers, halves), as at the concrete limiter inputs evaluated
    below; rounding, \<open>NaN\<close>, the infinities and the signed zero are outside the
    model. A number that the code only counts, floors or renders as text is an
    \<open>int\<close>.
  \<^item> \<open>Date.now()\<close> is an explicit argument \<open>now\<close>.
  \<^item> The key/value namespace is a finite map from keys to a stored value and the
    \<open>expirationTtl\<close> given at the \<open>put\<close>; every check takes the namespace and returns
    the updated one. A value read with \<open>get(key, 'json')\<close> is the object that
    \<open>JSON.stringify\<close> was given.
  \<^item> An optional field (\<open>retryAfter?\<close>, \<open>tokens?\<close>) is an \<open>option\<close>; \<open>None\<close> is
    \<open>undefined\<close>.
\<close>

subsection \<open>Data model\<close>

record RateLimitResult =
  allowed :: bool
  remaining :: real
  limit :: real
  reset :: real
  retryAfter :: "real option"

text \<open>
  \<open>RateLimitState\<close> as it is read back from the store. The token bucket writes
  \<open>{tokens, lastUpdate}\<close> and the leaky bucket \<open>{count, lastUpdate}\<close>, so every field
  but \<open>lastUpdate\<close> can be missing.
\<close>

record RateLimitState =
  count :: "real option"
  tokens :: "real option"
  windowStart :: "real option"
  lastUpdate :: real
  history :: "real list option"

record day_counter =
  day_count :: int
  date :: string

record month_counter =
  month_count :: int
  month :: string

record minute_counter =
  minute_count :: int
  timestamp :: int

record QuotaState =
  daily :: day_counter
  monthly :: month_counter
  minute :: minute_counter

datatype kv_value =
    StateJSON RateLimitState
  | QuotaJSON QuotaState

type_synonym KVNamespace = "string \<rightharpoonup> (kv_value \<times> int option)"

text \<open>\<open>kv.get(key, 'json') as RateLimitState | null\<close>.\<close>

definition get_state :: "KVNamespace \<Rightarrow> string \<Rightarrow> RateLimitState option" where
  "get_state kv k = (case kv k of Some (StateJSON s, ttl) \<Rightarrow> Some s | _ \<Rightarrow> None)"

text \<open>\<open>x || 0\<close> on an optional number: \<open>undefined\<close> and \<open>0\<close> both give \<open>0\<close>.\<close>

definition or_zero :: "real option \<Rightarrow> real" where
  "or_zero v = (case v of None \<Rightarrow> 0 | Some x \<Rightarrow> x)"

subsection \<open>Sliding window limiter\<close>

record SlidingWindowLimiter =
  sw_prefix :: string
  sw_limit :: real
  windowMs :: real

definition new_SlidingWindowLimiter :: "real \<Rightarrow> real \<Rightarrow> string \<Rightarrow> SlidingWindowLimiter" where
  "new_SlidingWindowLimiter lmt windowSeconds prefix =
     \<lparr>sw_prefix = prefix, sw_limit = lmt, windowMs = windowSeconds * 1000\<rparr>"

text \<open>
  \<open>Math.min(...history)\<close> is \<open>Min (set history)\<close>; on an empty history the source gives
  \<open>Infinity\<close>, which the model leaves unspecified (it is reached only with a limit
  \<open>\<le> 0\<close>).
\<close>

definition SlidingWindow_check ::
  "SlidingWindowLimiter \<Rightarrow> KVNamespace \<Rightarrow> real \<Rightarrow> string \<Rightarrow> KVNamespace \<times> RateLimitResult" where
  "SlidingWindow_check l kv now key =
     (let stateKey = sw_prefix l @ key;
          stateData = get_state kv stateKey;
          state = (case stateData of
                     Some s \<Rightarrow> s
                   | None \<Rightarrow> \<lparr>count = Some 0, tokens = None, windowStart = Some now,
                               lastUpdate = now, history = Some []\<rparr>);
          cutoff = now - windowMs l;
          hist = filter (\<lambda>t. t > cutoff) (case history state of Some h \<Rightarrow> h | None \<Rightarrow> []);
          cnt = length hist
      in if real cnt \<ge> sw_limit l then
           (let oldestEntry = Min (set hist);
                retry = \<lceil>(oldestEntry + windowMs l - now) / 1000\<rceil>
            in (kv, \<lparr>allowed = False, remaining = 0, limit = sw_limit l,
                     reset = oldestEntry + windowMs l,
                     retryAfter = Some (max 1 (of_int retry))\<rparr>))
         else
           (let hist' = hist @ [now];
                state' = state\<lparr>history := Some hist', lastUpdate := now\<rparr>
            in (kv(stateKey \<mapsto> (StateJSON state', Some (\<lceil>windowMs l / 1000\<rceil> + 60))),
                \<lparr>allowed = True, remaining = sw_limit l - real (length hist'),
                 limit = sw_limit l, reset = now + windowMs l, retryAfter = None\<rparr>)))"

subsection \<open>Token bucket limiter\<close>

text \<open>
  The token bucket is a member of the composite limiter's union and is modelled for
  that. Its interval \<open>1000 / rate\<close>, the quotient under the floor and the product under
  the ceiling are rounded by the source (at 15 tokens per second the interval is the
  double \<open>66.66666666666667\<close>), so the numbers this definition computes are the source's
  only where the arithmetic is exact, as with the rate 1 used below. Which branch
  writes the store, what is written beside the numbers, and the shape of the result do
  not depend on the rounding.
\<close>

record TokenBucketLimiter =
  tb_prefix :: string
  bucketSize :: real
  refillRate :: real
  refillInterval :: real

definition new_TokenBucketLimiter :: "real \<Rightarrow> real \<Rightarrow> string \<Rightarrow> TokenBucketLimiter" where
  "new_TokenBucketLimiter bsize refillRatePerSecond prefix =
     \<lparr>tb_prefix = prefix, bucketSize = bsize, refillRate = refillRatePerSecond,
      refillInterval = 1000 / refillRatePerSecond\<rparr>"

definition TokenBucket_check ::
  "TokenBucketLimiter \<Rightarrow> KVNamespace \<Rightarrow> real \<Rightarrow> string \<Rightarrow> real \<Rightarrow> KVNamespace \<times> RateLimitResult" where
  "TokenBucket_check l kv now key cost =
     (let stateKey = tb_prefix l @ key;
          stateData = get_state kv stateKey;
          tokens0 = (case stateData of
                       Some sd \<Rightarrow>
                         (let elapsed = now - lastUpdate sd;
                              refill = \<lfloor>elapsed / refillInterval l\<rfloor>
                          in min (bucketSize l) (or_zero (tokens sd) + of_int refill))
                     | None \<Rightarrow> bucketSize l)
      in if tokens0 < cost then
           (let tokensNeeded = cost - tokens0;
                refillTime = \<lceil>tokensNeeded * refillInterval l\<rceil>
            in (kv, \<lparr>allowed = False, remaining = of_int \<lfloor>tokens0\<rfloor>, limit = bucketSize l,
                     reset = now + of_int refillTime,
                     retryAfter = Some (of_int \<lceil>of_int refillTime / (1000::real)\<rceil>)\<rparr>))
         else
           (let tokens1 = tokens0 - cost
            in (kv(stateKey \<mapsto> (StateJSON \<lparr>count = None, tokens = Some tokens1,
                                            windowStart = None, lastUpdate = now,
                                            history = None\<rparr>, Some 3600)),
                \<lparr>allowed = True, remaining = of_int \<lfloor>tokens1\<rfloor>, limit = bucketSize l,
                 reset = now + refillInterval l, retryAfter = None\<rparr>)))"

subsection \<open>Leaky bucket limiter\<close>

record LeakyBucketLimiter =
  lb_prefix :: string
  lb_bucketSize :: real
  leakRate :: real

definition new_LeakyBucketLimiter :: "real \<Rightarrow> real \<Rightarrow> string \<Rightarrow> LeakyBucketLimiter" where
  "new_LeakyBucketLimiter bsize leakRatePerSecond prefix =
     \<lparr>lb_prefix = prefix, lb_bucketSize = bsize, leakRate = leakRatePerSecond\<rparr>"

definition LeakyBucket_check ::
  "LeakyBucketLimiter \<Rightarrow> KVNamespace \<Rightarrow> real \<Rightarrow> string \<Rightarrow> KVNamespace \<times> RateLimitResult" where
  "LeakyBucket_check l kv now key =
     (let stateKey = lb_prefix l @ key;
          stateData = get_state kv stateKey;
          waterLevel = (case stateData of
                          Some sd \<Rightarrow>
                            (let elapsed = (now - lastUpdate sd) / 1000;
                                 leaked = elapsed * leakRate l
                             in max 0 (or_zero (count sd) - leaked))
                        | None \<Rightarrow> 0)
      in if waterLevel \<ge> lb_bucketSize l then
           (let overflowAmount = waterLevel - lb_bucketSize l + 1;
                drainTime = overflowAmount / leakRate l
            in (kv, \<lparr>allowed = False, remaining = 0, limit = lb_bucketSize l,
                     reset = now + drainTime * 1000,
                     retryAfter = Some (of_int \<lceil>drainTime\<rceil>)\<rparr>))
         else
           (let waterLevel' = waterLevel + 1
            in (kv(stateKey \<mapsto> (StateJSON \<lparr>count = Some waterLevel', tokens = None,
                                            windowStart = None, lastUpdate = now,
                                            history = None\<rparr>, Some 3600)),
                \<lparr>allowed = True, remaining = of_int \<lfloor>lb_bucketSize l - waterLevel'\<rfloor>,
                 limit = lb_bucketSize l, reset = now + 1000 / leakRate l,
                 retryAfter = None\<rparr>)))"

subsection \<open>Quota manager\<close>

text \<open>
  \<open>new Date()\<close> is read twice by the source, as \<open>getTime()\<close> and as
  \<open>toISOString()\<close>; the calendar arithmetic behind the second is the platform's, so a
  \<open>Date\<close> is the pair of the two readings.
\<close>

record Date =
  getTime :: int
  toISOString :: string

record QuotaConfig =
  cfg_daily :: int
  cfg_monthly :: int
  perMinute :: int

datatype period = Daily | Monthly | Minute

record usage =
  used :: int
  usage_limit :: int

record quota_usage =
  q_daily :: usage
  q_monthly :: usage
  q_minute :: usage

record QuotaResult =
  q_allowed :: bool
  quotas :: quota_usage
  exceededQuota :: "period option"

definition get_quota :: "KVNamespace \<Rightarrow> string \<Rightarrow> QuotaState option" where
  "get_quota kv k = (case kv k of Some (QuotaJSON s, ttl) \<Rightarrow> Some s | _ \<Rightarrow> None)"

text \<open>\<open>s.split('T')[0]\<close>: the text before the first \<open>T\<close>.\<close>

definition before_T :: "string \<Rightarrow> string" where
  "before_T s = takeWhile (\<lambda>c. c \<noteq> CHR ''T'') s"

definition quota_report :: "QuotaConfig \<Rightarrow> QuotaState \<Rightarrow> quota_usage" where
  "quota_report config state =
     \<lparr>q_daily = \<lparr>used = day_count (daily state), usage_limit = cfg_daily config\<rparr>,
      q_monthly = \<lparr>used = month_count (monthly state), usage_limit = cfg_monthly config\<rparr>,
      q_minute = \<lparr>used = minute_count (minute state), usage_limit = perMinute config\<rparr>\<rparr>"

text \<open>The block \<open>// Reset counters if period changed\<close>.\<close>

definition reset_counters :: "string \<Rightarrow> string \<Rightarrow> int \<Rightarrow> QuotaState \<Rightarrow> QuotaState" where
  "reset_counters today month_now minuteTs state0 =
     (let state1 = (if date (daily state0) \<noteq> today
                    then state0\<lparr>daily := \<lparr>day_count = 0, date = today\<rparr>\<rparr> else state0);
          state2 = (if month (monthly state1) \<noteq> month_now
                    then state1\<lparr>monthly := \<lparr>month_count = 0, month = month_now\<rparr>\<rparr> else state1)
      in if timestamp (minute state2) \<noteq> minuteTs
         then state2\<lparr>minute := \<lparr>minute_count = 0, timestamp = minuteTs\<rparr>\<rparr> else state2)"

text \<open>The block \<open>// Check limits\<close>: \<open>None\<close> is \<open>exceededQuota\<close> left \<open>undefined\<close>.\<close>

definition check_limits :: "QuotaConfig \<Rightarrow> QuotaState \<Rightarrow> period option" where
  "check_limits config state =
     (if minute_count (minute state) \<ge> perMinute config then Some Minute
      else if day_count (daily state) \<ge> cfg_daily config then Some Daily
      else if month_count (monthly state) \<ge> cfg_monthly config then Some Monthly
      else None)"

text \<open>The three \<open>count++\<close>.\<close>

definition increment_counters :: "QuotaState \<Rightarrow> QuotaState" where
  "increment_counters state =
     state\<lparr>minute := (minute state)\<lparr>minute_count := minute_count (minute state) + 1\<rparr>,
           daily := (daily state)\<lparr>day_count := day_count (daily state) + 1\<rparr>,
           monthly := (monthly state)\<lparr>month_count := month_count (monthly state) + 1\<rparr>\<rparr>"

definition checkAndIncrement ::
  "QuotaConfig \<Rightarrow> KVNamespace \<Rightarrow> Date \<Rightarrow> string \<Rightarrow> KVNamespace \<times> QuotaResult" where
  "checkAndIncrement config kv now userId =
     (let today = before_T (toISOString now);
          month_now = take 7 today;
          minuteTs = (getTime now div 60000) * 60000;
          stateKey = ''quota:'' @ userId;
          stateData = get_quota kv stateKey;
          state0 = (case stateData of
                      Some s \<Rightarrow> s
                    | None \<Rightarrow> \<lparr>daily = \<lparr>day_count = 0, date = today\<rparr>,
                                monthly = \<lparr>month_count = 0, month = month_now\<rparr>,
                                minute = \<lparr>minute_count = 0, timestamp = minuteTs\<rparr>\<rparr>);
          state = reset_counters today month_now minuteTs state0;
          exceeded = check_limits config state
      in case exceeded of
           None \<Rightarrow>
             (let state' = increment_counters state
              in (kv(stateKey \<mapsto> (QuotaJSON state', Some (86400 * 32))),
                  \<lparr>q_allowed = True, quotas = quota_report config state',
                   exceededQuota = None\<rparr>))
         | Some p \<Rightarrow>
             (kv, \<lparr>q_allowed = False, quotas = quota_report config state,
                   exceededQuota = Some p\<rparr>))"

subsection \<open>Composite rate limiter\<close>

datatype limiter =
    SW SlidingWindowLimiter
  | TB TokenBucketLimiter
  | LB LeakyBucketLimiter

text \<open>\<open>limiter.check(key)\<close> on the union type; the token bucket takes its default cost 1.\<close>

fun limiter_check ::
  "limiter \<Rightarrow> KVNamespace \<Rightarrow> real \<Rightarrow> string \<Rightarrow> KVNamespace \<times> RateLimitResult" where
  "limiter_check (SW l) kv now key = SlidingWindow_check l kv now key"
| "limiter_check (TB l) kv now key = TokenBucket_check l kv now key 1"
| "limiter_check (LB l) kv now key = LeakyBucket_check l kv now key"

record entry =
  name :: string
  limiter :: limiter
  priority :: real

record CompositeResult = RateLimitResult +
  limiterName :: "string option"

datatype js_error = TypeError

text \<open>
  \<open>add\<close> pushes and re-sorts by descending priority; \<open>Array.prototype.sort\<close> is stable,
  as is \<open>sort_key\<close>.
\<close>

definition Composite_add :: "entry list \<Rightarrow> string \<Rightarrow> limiter \<Rightarrow> real \<Rightarrow> entry list" where
  "Composite_add limiters n l p =
     sort_key (\<lambda>e. - priority e) (limiters @ [\<lparr>name = n, limiter = l, priority = p\<rparr>])"

text \<open>The \<open>for\<close> loop of \<open>check\<close>: \<open>Some\<close> is the early return, \<open>None\<close> falls out of the loop.\<close>

fun probe ::
  "entry list \<Rightarrow> KVNamespace \<Rightarrow> real \<Rightarrow> string \<Rightarrow> KVNamespace \<times> CompositeResult option" where
  "probe [] kv now key = (kv, None)"
| "probe (e # es) kv now key =
     (let (kv', result) = limiter_check (limiter e) kv now key
      in if \<not> allowed result
         then (kv', Some \<lparr>allowed = allowed result, remaining = remaining result,
                          limit = limit result, reset = reset result,
                          retryAfter = retryAfter result, limiterName = Some (name e)\<rparr>)
         else probe es kv' now key)"

text \<open>
  After the loop the source reads \<open>this.limiters[this.limiters.length - 1]\<close>, which is
  \<open>undefined\<close> for an empty array, and then its field \<open>limiter\<close>: a \<open>TypeError\<close>.
  All clock readings of one composite check are the same \<open>now\<close>.
\<close>

definition Composite_check ::
  "entry list \<Rightarrow> KVNamespace \<Rightarrow> real \<Rightarrow> string \<Rightarrow> KVNamespace \<times> (js_error + CompositeResult)" where
  "Composite_check limiters kv now key =
     (case probe limiters kv now key of
        (kv', Some denied) \<Rightarrow> (kv', Inr denied)
      | (kv', None) \<Rightarrow>
          (case limiters of
             [] \<Rightarrow> (kv', Inl TypeError)
           | _ # _ \<Rightarrow>
               (let lastLimiter = last limiters;
                    (kv'', result) = limiter_check (limiter lastLimiter) kv' now key
                in (kv'', Inr \<lparr>allowed = allowed result, remaining = remaining result,
                               limit = limit result, reset = reset result,
                               retryAfter = retryAfter result, limiterName = None\<rparr>))))"

subsection \<open>Text and numbers of the middleware\<close>

text \<open>
  A string in a condition is truthy when it is defined and not empty; \<open>a || b\<close> takes
  the first truthy operand.
\<close>

definition truthy :: "string option \<Rightarrow> bool" where
  "truthy v = (case v of None \<Rightarrow> False | Some s \<Rightarrow> s \<noteq> [])"

definition is_digit :: "char \<Rightarrow> bool" where
  "is_digit c = (c \<in> set ''0123456789'')"

definition is_space :: "char \<Rightarrow> bool" where
  "is_space c = (c \<in> {CHR '' '', CHR 0x09, CHR 0x0A, CHR 0x0B, CHR 0x0C, CHR 0x0D})"

definition digit_char :: "nat \<Rightarrow> char" where
  "digit_char d = ''0123456789'' ! d"

definition digit_val :: "char \<Rightarrow> nat" where
  "digit_val c = length (takeWhile (\<lambda>d. d \<noteq> c) ''0123456789'')"

fun nat_toString :: "nat \<Rightarrow> string" where
  "nat_toString n =
     (if n < 10 then [digit_char n] else nat_toString (n div 10) @ [digit_char (n mod 10)])"

definition int_toString :: "int \<Rightarrow> string" where
  "int_toString i = (if i < 0 then CHR ''-'' # nat_toString (nat (- i)) else nat_toString (nat i))"

definition digits_value :: "string \<Rightarrow> nat" where
  "digits_value ds = foldl (\<lambda>acc c. acc * 10 + digit_val c) 0 ds"

text \<open>
  \<open>parseInt(s, 10)\<close>: leading white space, an optional sign, then the longest run of
  decimal digits; \<open>None\<close> is \<open>NaN\<close> (no digit).
\<close>

definition parseInt :: "string \<Rightarrow> int option" where
  "parseInt s =
     (let t = dropWhile is_space s;
          neg = (case t of c # r \<Rightarrow> c = CHR ''-'' | [] \<Rightarrow> False);
          u = (case t of c # r \<Rightarrow> (if c = CHR ''-'' \<or> c = CHR ''+'' then r else t) | [] \<Rightarrow> []);
          ds = takeWhile is_digit u
      in if ds = [] then None
         else Some ((if neg then - 1 else 1) * int (digits_value ds)))"

text \<open>\<open>Number.prototype.toString\<close> on an integer or \<open>NaN\<close>.\<close>

definition num_toString :: "int option \<Rightarrow> string" where
  "num_toString v = (case v of None \<Rightarrow> ''NaN'' | Some i \<Rightarrow> int_toString i)"

subsection \<open>Fixed-window rate-limit middleware\<close>

text \<open>
  The namespace bound as \<open>RATE_LIMIT\<close> holds text. Each of its operations can throw; the
  two flags say whether the \<open>get\<close> and the \<open>put\<close> of this request do.
\<close>

record TextKV =
  entries :: "string \<rightharpoonup> (string \<times> int)"
  get_throws :: bool
  put_throws :: bool

datatype kv_error = KVError

definition kv_get :: "TextKV \<Rightarrow> string \<Rightarrow> kv_error + string option" where
  "kv_get kv k = (if get_throws kv then Inl KVError else Inr (map_option fst (entries kv k)))"

definition kv_put :: "TextKV \<Rightarrow> string \<Rightarrow> string \<Rightarrow> int \<Rightarrow> kv_error + TextKV" where
  "kv_put kv k v ttl =
     (if put_throws kv then Inl KVError else Inr (kv\<lparr>entries := (entries kv)(k \<mapsto> (v, ttl))\<rparr>))"

record WindowConfig =
  cfg_windowMs :: int
  cfg_max :: int
  keyPrefix :: string

definition defaultConfig :: WindowConfig where
  "defaultConfig = \<lparr>cfg_windowMs = 60000, cfg_max = 100, keyPrefix = ''rl:''\<rparr>"

record Context =
  path :: string
  req_header :: "string \<rightharpoonup> string"
  RATE_LIMIT :: "TextKV option"
  API_KEYS :: "string option"

record json_body =
  error :: string
  message :: string
  body_retryAfter :: "int option"

datatype action = Next | Json json_body nat

record Outcome =
  action :: action
  res_headers :: "(string \<times> string) list"
  logged :: "string list"
  kv_after :: "TextKV option"

text \<open>\<open>header('X-API-Key') || header('CF-Connecting-IP') || 'anonymous'\<close>.\<close>

definition client_id :: "Context \<Rightarrow> string" where
  "client_id c =
     (if truthy (req_header c ''X-API-Key'') then the (req_header c ''X-API-Key'')
      else if truthy (req_header c ''CF-Connecting-IP'') then the (req_header c ''CF-Connecting-IP'')
      else ''anonymous'')"

text \<open>\<open>current ? parseInt(current, 10) : 0\<close>.\<close>

definition read_count :: "string option \<Rightarrow> int option" where
  "read_count current = (if truthy current then parseInt (the current) else Some 0)"

text \<open>\<open>count >= max\<close>, false on \<open>NaN\<close>.\<close>

definition num_ge :: "int option \<Rightarrow> int \<Rightarrow> bool" where
  "num_ge v m = (case v of None \<Rightarrow> False | Some n \<Rightarrow> n \<ge> m)"

definition rateLimiter :: "Context \<Rightarrow> int \<Rightarrow> Outcome" where
  "rateLimiter c now =
     (let config = defaultConfig
      in case RATE_LIMIT c of
           None \<Rightarrow> \<lparr>action = Next, res_headers = [], logged = [], kv_after = None\<rparr>
         | Some kv \<Rightarrow>
             (let clientId = client_id c;
                  key = keyPrefix config @ clientId;
                  windowStart = (now div cfg_windowMs config) * cfg_windowMs config;
                  windowKey = key @ '':'' @ int_toString windowStart;
                  caught = \<lparr>action = Next, res_headers = [], logged = [''Rate limit error:''],
                            kv_after = Some kv\<rparr>
              in case kv_get kv windowKey of
                   Inl err \<Rightarrow> caught
                 | Inr current \<Rightarrow>
                     (let cnt = read_count current
                      in if num_ge cnt (cfg_max config) then
                           (let retry = \<lceil>real_of_int (windowStart + cfg_windowMs config - now) / 1000\<rceil>
                            in \<lparr>action = Json \<lparr>error = ''Too Many Requests'',
                                                message = ''Rate limit exceeded. Try again in '' @
                                                          int_toString retry @ '' seconds'',
                                                body_retryAfter = Some retry\<rparr> 429,
                                res_headers =
                                  [(''X-RateLimit-Limit'', int_toString (cfg_max config)),
                                   (''X-RateLimit-Remaining'', ''0''),
                                   (''X-RateLimit-Reset'',
                                    int_toString (windowStart + cfg_windowMs config))],
                                logged = [], kv_after = Some kv\<rparr>)
                         else
                           (case kv_put kv windowKey (num_toString (map_option (\<lambda>n. n + 1) cnt))
                                   (\<lceil>real_of_int (cfg_windowMs config) / 1000\<rceil> + 60) of
                              Inl err \<Rightarrow> caught
                            | Inr kv' \<Rightarrow>
                                \<lparr>action = Next,
                                 res_headers =
                                   [(''X-RateLimit-Limit'', int_toString (cfg_max config)),
                                    (''X-RateLimit-Remaining'',
                                     num_toString (map_option (\<lambda>n. cfg_max config - n - 1) cnt)),
                                    (''X-RateLimit-Reset'',
                                     int_toString (windowStart + cfg_windowMs config))],
                                 logged = [], kv_after = Some kv'\<rparr>))))"

subsection \<open>Authentication middleware\<close>

text \<open>\<open>s.split(',')\<close>: the pieces between the commas, so one piece more than commas.\<close>

fun split_comma :: "string \<Rightarrow> string list" where
  "split_comma [] = [[]]"
| "split_comma (c # cs) =
     (if c = CHR '','' then [] # split_comma cs
      else (case split_comma cs of
              w # ws \<Rightarrow> (c # w) # ws
            | [] \<Rightarrow> [[c]]))"

definition unauthorized :: "string \<Rightarrow> action" where
  "unauthorized msg = Json \<lparr>error = ''Unauthorized'', message = msg, body_retryAfter = None\<rparr> 401"

text \<open>\<open>(c.env.API_KEYS || '').split(',').filter(Boolean)\<close>.\<close>

definition valid_keys :: "string option \<Rightarrow> string list" where
  "valid_keys keys = filter (\<lambda>k. k \<noteq> []) (split_comma (if truthy keys then the keys else []))"

definition auth :: "Context \<Rightarrow> action" where
  "auth c =
     (if path c = ''/health'' then Next
      else
        (let apiKey = req_header c ''X-API-Key'';
             authHeader = req_header c ''Authorization''
         in if truthy apiKey then
              (let validKeys = valid_keys (API_KEYS c)
               in if length validKeys > 0 \<and> the apiKey \<notin> set validKeys
                  then unauthorized ''Invalid API key''
                  else Next)
            else if (case authHeader of Some h \<Rightarrow> take 7 h = ''Bearer '' | None \<Rightarrow> False)
            then (let token = drop 7 (the authHeader)
                  in if token \<noteq> [] then Next else Next)
            else Next))"

definition requireAuth :: "Context \<Rightarrow> action" where
  "requireAuth c =
     (let apiKey = req_header c ''X-API-Key'';
          authHeader = req_header c ''Authorization''
      in if \<not> truthy apiKey \<and> \<not> truthy authHeader
         then unauthorized
                ''Authentication required. Provide X-API-Key or Authorization header.''
         else auth c)"

subsection \<open>Metrics collector\<close>

record RequestMetric =
  m_path :: string
  http_method :: string
  statusCode :: int
  latencyMs :: int
  m_timestamp :: int
  upstream :: "string option"
  cached :: bool

record requests_stats =
  total :: nat
  success :: nat
  errors :: nat
  cached_total :: nat

text \<open>A latency read from an array is \<open>None\<close> where the source would read \<open>undefined\<close>.\<close>

record latency_stats =
  avg :: real
  p50 :: "int option"
  p95 :: "int option"
  p99 :: "int option"
  lat_min :: "int option"
  lat_max :: "int option"

record AggregatedMetrics =
  requests :: requests_stats
  latency :: latency_stats
  limited :: nat

text \<open>\<open>xs[i]\<close> for an integer index: \<open>undefined\<close> outside the array.\<close>

definition js_index :: "'a list \<Rightarrow> int \<Rightarrow> 'a option" where
  "js_index xs i = (if 0 \<le> i \<and> i < int (length xs) then Some (xs ! nat i) else None)"

definition percentile :: "int list \<Rightarrow> real \<Rightarrow> int option" where
  "percentile srt p =
     (let index = \<lceil>(p / 100) * real (length srt)\<rceil> - 1
      in js_index srt (max 0 index))"

definition emptyMetrics :: AggregatedMetrics where
  "emptyMetrics =
     \<lparr>requests = \<lparr>total = 0, success = 0, errors = 0, cached_total = 0\<rparr>,
      latency = \<lparr>avg = 0, p50 = Some 0, p95 = Some 0, p99 = Some 0,
                 lat_min = Some 0, lat_max = Some 0\<rparr>,
      limited = 0\<rparr>"

text \<open>
  \<open>getAggregated\<close>: the request counts and the latency block. The per-path, per-status
  and per-upstream tables of the source are computed from the same \<open>relevant\<close> list
  and do not feed the latency block; they are not part of the model.
\<close>

definition getAggregated :: "RequestMetric list \<Rightarrow> int \<Rightarrow> real \<Rightarrow> AggregatedMetrics" where
  "getAggregated metrics now windowMinutes =
     (let cutoff = real_of_int now - windowMinutes * 60 * 1000;
          relevant = filter (\<lambda>m. real_of_int (m_timestamp m) \<ge> cutoff) metrics
      in if length relevant = 0 then emptyMetrics
         else
           (let latencies = sort (map latencyMs relevant)
            in \<lparr>requests =
                  \<lparr>total = length relevant,
                   success = length (filter (\<lambda>m. statusCode m \<ge> 200 \<and> statusCode m < 400) relevant),
                   errors = length (filter (\<lambda>m. \<not> (statusCode m \<ge> 200 \<and> statusCode m < 400)) relevant),
                   cached_total = length (filter cached relevant)\<rparr>,
                latency =
                  \<lparr>avg = real_of_int (sum_list latencies) / real (length latencies),
                   p50 = percentile latencies 50,
                   p95 = percentile latencies 95,
                   p99 = percentile latencies 99,
                   lat_min = js_index latencies 0,
                   lat_max = js_index latencies (int (length latencies) - 1)\<rparr>,
                limited = length (filter (\<lambda>m. statusCode m = 429) relevant)\<rparr>))"

section \<open>Properties\<close>

subsection \<open>Limiter results\<close>

text \<open>
  An allowed result never carries \<open>retryAfter\<close>. The sliding window (with an integral
  limit) and the token bucket (with a non-negative bucket and balance and a clock that
  does not run backwards) report \<open>remaining \<ge> 0\<close>, and so does a leaky-bucket denial.
\<close>

lemma SlidingWindow_allowed_no_retryAfter:
  "allowed (snd (SlidingWindow_check l kv now key)) \<Longrightarrow>
   retryAfter (snd (SlidingWindow_check l kv now key)) = None"
  by (simp add: SlidingWindow_check_def Let_def split: if_splits)

lemma TokenBucket_allowed_no_retryAfter:
  "allowed (snd (TokenBucket_check l kv now key cost)) \<Longrightarrow>
   retryAfter (snd (TokenBucket_check l kv now key cost)) = None"
  by (simp add: TokenBucket_check_def Let_def split: if_splits)

lemma LeakyBucket_allowed_no_retryAfter:
  "allowed (snd (LeakyBucket_check l kv now key)) \<Longrightarrow>
   retryAfter (snd (LeakyBucket_check l kv now key)) = None"
  by (simp add: LeakyBucket_check_def Let_def split: if_splits)

lemma SlidingWindow_remaining_nonneg:
  assumes "sw_limit l \<in> \<int>"
  shows "0 \<le> remaining (snd (SlidingWindow_check l kv now key))"
proof -
  obtain z :: int where z: "sw_limit l = of_int z"
    using assms by (auto elim: Ints_cases)
  have "1 + real n \<le> of_int z" if "\<not> of_int z \<le> real n" for n
  proof -
    have "int n < z" using that by linarith
    then have "int n + 1 \<le> z" by simp
    then show ?thesis by linarith
  qed
  then show ?thesis
    by (simp add: SlidingWindow_check_def Let_def z)
qed

lemma TokenBucket_remaining_nonneg:
  assumes size: "0 \<le> bucketSize l" and interval: "0 < refillInterval l"
    and stored: "\<And>sd. get_state kv (tb_prefix l @ key) = Some sd \<Longrightarrow>
                   0 \<le> or_zero (tokens sd) \<and> lastUpdate sd \<le> now"
  shows "0 \<le> remaining (snd (TokenBucket_check l kv now key cost))"
proof (cases "get_state kv (tb_prefix l @ key)")
  case None
  then show ?thesis
    using size by (simp add: TokenBucket_check_def Let_def)
next
  case (Some sd)
  have t: "0 \<le> or_zero (tokens sd)" and e: "0 \<le> now - lastUpdate sd"
    using stored [OF Some] by simp_all
  have "0 \<le> (now - lastUpdate sd) / refillInterval l"
    using e interval by simp
  then have "0 \<le> \<lfloor>(now - lastUpdate sd) / refillInterval l\<rfloor>" by simp
  then have "0 \<le> min (bucketSize l)
                    (or_zero (tokens sd) + of_int \<lfloor>(now - lastUpdate sd) / refillInterval l\<rfloor>)"
    (is "0 \<le> ?tokens0")
    using size t by simp
  moreover have "remaining (snd (TokenBucket_check l kv now key cost)) =
      (if ?tokens0 < cost then of_int \<lfloor>?tokens0\<rfloor> else of_int \<lfloor>?tokens0 - cost\<rfloor>)"
    using Some by (simp add: TokenBucket_check_def Let_def)
  ultimately show ?thesis
    by (simp add: not_less)
qed

lemma LeakyBucket_denied_remaining:
  "\<not> allowed (snd (LeakyBucket_check l kv now key)) \<Longrightarrow>
   remaining (snd (LeakyBucket_check l kv now key)) = 0"
  by (simp add: LeakyBucket_check_def Let_def split: if_splits)

text \<open>
  Claim C2 asks that every result of a limiter's check has \<open>remaining \<ge> 0\<close> and that an
  allowed result carries no \<open>retryAfter\<close>. The leaky bucket admits a request whenever the
  water level is below the bucket size, also when it is less than one unit below: with
  bucket size 5 and leak rate 1 per second, five requests at time 0 fill the bucket, and
  a sixth request 500 ms later finds the level 4.5, is allowed, raises the level to 5.5
  and reports \<open>remaining = \<lfloor>5 - 5.5\<rfloor> = -1\<close>.
\<close>

theorem LeakyBucket_remaining_negative:
  "(let l = new_LeakyBucketLimiter 5 1 ''rl:lb:'';
        kv1 = fst (LeakyBucket_check l Map.empty 0 ''k'');
        kv2 = fst (LeakyBucket_check l kv1 0 ''k'');
        kv3 = fst (LeakyBucket_check l kv2 0 ''k'');
        kv4 = fst (LeakyBucket_check l kv3 0 ''k'');
        kv5 = fst (LeakyBucket_check l kv4 0 ''k'');
        r = snd (LeakyBucket_check l kv5 500 ''k'')
    in get_state kv5 ''rl:lb:k'' =
         Some \<lparr>count = Some 5, tokens = None, windowStart = None, lastUpdate = 0, history = None\<rparr> \<and>
       allowed r \<and> remaining r = - 1)"
  by (simp add: LeakyBucket_check_def new_LeakyBucketLimiter_def get_state_def or_zero_def Let_def)

subsection \<open>Composite limiter\<close>

text \<open>
  The registered limiters are kept in descending priority; a denial returned by the
  loop is the first one and names its limiter.
\<close>

lemma Composite_add_descending:
  "sorted (map (\<lambda>e. - priority e) (Composite_add limiters n l p))"
  by (simp add: Composite_add_def)

lemma probe_denial_named:
  "probe es kv now key = (kv', Some r) \<Longrightarrow>
   \<not> allowed r \<and> (\<exists>e \<in> set es. limiterName r = Some (name e))"
proof (induction es arbitrary: kv)
  case Nil
  then show ?case by simp
next
  case (Cons e es)
  show ?case
  proof (cases "allowed (snd (limiter_check (limiter e) kv now key))")
    case True
    then have "probe es (fst (limiter_check (limiter e) kv now key)) now key = (kv', Some r)"
      using Cons.prems by (simp add: split_def Let_def)
    from Cons.IH [OF this] show ?thesis by auto
  next
    case False
    then show ?thesis
      using Cons.prems by (auto simp: split_def Let_def)
  qed
qed

lemma probe_first_denies:
  "\<not> allowed (snd (limiter_check (limiter e) kv now key)) \<Longrightarrow>
   \<exists>r. probe (e # es) kv now key = (fst (limiter_check (limiter e) kv now key), Some r) \<and>
       limiterName r = Some (name e) \<and> \<not> allowed r"
  by (simp add: split_def Let_def)

text \<open>
  Claim C1 asks that, when every limiter allows, the lowest-priority limiter has been
  counted once. After the probing loop the source calls \<open>check\<close> on the last limiter a
  second time and returns that result. For a composite of one sliding-window limiter of
  limit 2 and an empty store, a direct check leaves one time stamp and \<open>remaining = 1\<close>;
  the composite check leaves two time stamps and returns \<open>remaining = 0\<close>.
\<close>

theorem Composite_check_double_counts:
  "(let l = new_SlidingWindowLimiter 2 60 ''rl:sw:'';
        c = Composite_add [] ''sw'' (SW l) 0;
        single = SlidingWindow_check l Map.empty 1000 ''k'';
        composite = Composite_check c Map.empty 1000 ''k''
    in remaining (snd single) = 1 \<and>
       map_option history (get_state (fst single) ''rl:sw:k'') = Some (Some [1000]) \<and>
       snd composite = Inr \<lparr>allowed = True, remaining = 0, limit = 2, reset = 61000,
                             retryAfter = None, limiterName = None\<rparr> \<and>
       map_option history (get_state (fst composite) ''rl:sw:k'') = Some (Some [1000, 1000]))"
  by (simp add: Composite_check_def Composite_add_def SlidingWindow_check_def
        new_SlidingWindowLimiter_def get_state_def Let_def)

text \<open>
  With limit 1 the second call finds the window full: the first request of a client is
  denied although every limiter allowed it in the loop, and no limiter is named.
\<close>

lemma Composite_first_request_denied:
  "(let l = new_SlidingWindowLimiter 1 60 ''rl:sw:'';
        c = Composite_add [] ''sw'' (SW l) 0;
        composite = Composite_check c Map.empty 1000 ''k''
    in snd composite = Inr \<lparr>allowed = False, remaining = 0, limit = 1, reset = 61000,
                             retryAfter = Some 60, limiterName = None\<rparr>)"
  by (simp add: Composite_check_def Composite_add_def SlidingWindow_check_def
        new_SlidingWindowLimiter_def get_state_def Let_def)

text \<open>
  Claim C10. With no limiter registered the check ends in a \<open>TypeError\<close>; with at least
  one it returns a result; and \<open>add\<close> never leaves the list empty.
\<close>

theorem Composite_check_needs_limiter:
  "snd (Composite_check [] kv now key) = Inl TypeError \<and>
   (limiters \<noteq> [] \<longrightarrow> (\<exists>r. snd (Composite_check limiters kv now key) = Inr r)) \<and>
   Composite_add limiters n l p \<noteq> []"
proof (intro conjI impI)
  show "snd (Composite_check [] kv now key) = Inl TypeError"
    by (simp add: Composite_check_def)
next
  assume "limiters \<noteq> []"
  then obtain e es where "limiters = e # es" by (cases limiters) auto
  then show "\<exists>r. snd (Composite_check limiters kv now key) = Inr r"
    by (auto simp: Composite_check_def Let_def split: prod.splits option.splits)
next
  have "length (Composite_add limiters n l p) = Suc (length limiters)"
    by (simp add: Composite_add_def)
  then show "Composite_add limiters n l p \<noteq> []" by auto
qed

theorem Composite_check_needs_limiter_witness:
  "(let c = Composite_add [] ''tb'' (TB (new_TokenBucketLimiter 10 1 ''rl:tb:'')) 0
    in snd (Composite_check [] Map.empty 0 ''k'') = Inl TypeError \<and>
       c \<noteq> [] \<and>
       (\<exists>r. snd (Composite_check c Map.empty 0 ''k'') = Inr r))"
proof -
  let ?c = "Composite_add [] ''tb'' (TB (new_TokenBucketLimiter 10 1 ''rl:tb:'')) 0"
  have ne: "?c \<noteq> []" by (simp add: Composite_add_def)
  show ?thesis
    using ne Composite_check_needs_limiter
            [where limiters = "?c" and kv = Map.empty and now = 0 and key = "''k''"]
    by (simp add: Let_def)
qed

subsection \<open>Quota manager\<close>

lemma QuotaState_explicit:
  obtains dc dd mc mm ic it where
    "(st::QuotaState) = \<lparr>daily = \<lparr>day_count = dc, date = dd\<rparr>,
                         monthly = \<lparr>month_count = mc, month = mm\<rparr>,
                         minute = \<lparr>minute_count = ic, timestamp = it\<rparr>\<rparr>"
proof -
  obtain d m i where "st = \<lparr>daily = d, monthly = m, minute = i\<rparr>" by (cases st) auto
  moreover obtain dc dd where "d = \<lparr>day_count = dc, date = dd\<rparr>" by (cases d) auto
  moreover obtain mc mm where "m = \<lparr>month_count = mc, month = mm\<rparr>" by (cases m) auto
  moreover obtain ic it where "i = \<lparr>minute_count = ic, timestamp = it\<rparr>" by (cases i) auto
  ultimately show ?thesis using that by blast
qed

lemma reset_counters_explicit:
  "reset_counters today month_now minuteTs
     \<lparr>daily = \<lparr>day_count = dc, date = dd\<rparr>,
      monthly = \<lparr>month_count = mc, month = mm\<rparr>,
      minute = \<lparr>minute_count = ic, timestamp = it\<rparr>\<rparr> =
   \<lparr>daily = \<lparr>day_count = (if dd = today then dc else 0), date = today\<rparr>,
    monthly = \<lparr>month_count = (if mm = month_now then mc else 0), month = month_now\<rparr>,
    minute = \<lparr>minute_count = (if it = minuteTs then ic else 0), timestamp = minuteTs\<rparr>\<rparr>"
  by (simp add: reset_counters_def)

lemma increment_counters_explicit:
  "increment_counters
     \<lparr>daily = \<lparr>day_count = dc, date = dd\<rparr>,
      monthly = \<lparr>month_count = mc, month = mm\<rparr>,
      minute = \<lparr>minute_count = ic, timestamp = it\<rparr>\<rparr> =
   \<lparr>daily = \<lparr>day_count = dc + 1, date = dd\<rparr>,
    monthly = \<lparr>month_count = mc + 1, month = mm\<rparr>,
    minute = \<lparr>minute_count = ic + 1, timestamp = it\<rparr>\<rparr>"
  by (simp add: increment_counters_def)

text \<open>
  Claim C4. With \<open>m\<close>, \<open>d\<close>, \<open>mo\<close> the minute, daily and monthly counters after the
  period reset (the stored count when the stored period identifier is the current one,
  0 otherwise): \<open>exceededQuota\<close> is the first of minute, daily, monthly whose counter has
  reached its limit; the call is allowed exactly when there is none; a denial returns
  the namespace unchanged; an allowed call stores all three counters incremented, under
  the current identifiers, with a TTL of 32 days (2764800 seconds).
\<close>

theorem checkAndIncrement_order:
  "(let today = before_T (toISOString now);
        month_now = take 7 today;
        minuteTs = (getTime now div 60000) * 60000;
        stateKey = ''quota:'' @ userId;
        st = (case get_quota kv stateKey of
                Some s \<Rightarrow> s
              | None \<Rightarrow> \<lparr>daily = \<lparr>day_count = 0, date = today\<rparr>,
                          monthly = \<lparr>month_count = 0, month = month_now\<rparr>,
                          minute = \<lparr>minute_count = 0, timestamp = minuteTs\<rparr>\<rparr>);
        m = (if timestamp (minute st) = minuteTs then minute_count (minute st) else 0);
        d = (if date (daily st) = today then day_count (daily st) else 0);
        mo = (if month (monthly st) = month_now then month_count (monthly st) else 0);
        res = checkAndIncrement config kv now userId
    in exceededQuota (snd res) =
         (if m \<ge> perMinute config then Some Minute
          else if d \<ge> cfg_daily config then Some Daily
          else if mo \<ge> cfg_monthly config then Some Monthly
          else None) \<and>
       q_allowed (snd res) = (exceededQuota (snd res) = None) \<and>
       (\<not> q_allowed (snd res) \<longrightarrow> fst res = kv) \<and>
       (q_allowed (snd res) \<longrightarrow>
          fst res = kv(stateKey \<mapsto>
            (QuotaJSON \<lparr>daily = \<lparr>day_count = d + 1, date = today\<rparr>,
                        monthly = \<lparr>month_count = mo + 1, month = month_now\<rparr>,
                        minute = \<lparr>minute_count = m + 1, timestamp = minuteTs\<rparr>\<rparr>,
             Some 2764800))))"
proof -
  define st where "st = (case get_quota kv (''quota:'' @ userId) of
                Some s \<Rightarrow> s
              | None \<Rightarrow> \<lparr>daily = \<lparr>day_count = 0, date = before_T (toISOString now)\<rparr>,
                          monthly = \<lparr>month_count = 0, month = take 7 (before_T (toISOString now))\<rparr>,
                          minute = \<lparr>minute_count = 0, timestamp = (getTime now div 60000) * 60000\<rparr>\<rparr>)"
  obtain dc dd mc mm ic it where st: "st = \<lparr>daily = \<lparr>day_count = dc, date = dd\<rparr>,
                         monthly = \<lparr>month_count = mc, month = mm\<rparr>,
                         minute = \<lparr>minute_count = ic, timestamp = it\<rparr>\<rparr>"
    by (rule QuotaState_explicit)
  show ?thesis
    unfolding checkAndIncrement_def Let_def st_def [symmetric]
    unfolding st reset_counters_explicit
    by (simp add: check_limits_def increment_counters_explicit)
qed

theorem checkAndIncrement_order_witness:
  "(let config = \<lparr>cfg_daily = 5, cfg_monthly = 10, perMinute = 3\<rparr>;
        kv = [''quota:u'' \<mapsto>
                (QuotaJSON \<lparr>daily = \<lparr>day_count = 3, date = ''1970-01-01''\<rparr>,
                            monthly = \<lparr>month_count = 3, month = ''1970-01''\<rparr>,
                            minute = \<lparr>minute_count = 3, timestamp = 43200000\<rparr>\<rparr>,
                 Some 2764800)];
        denied = checkAndIncrement config kv
                   \<lparr>getTime = 43200500, toISOString = ''1970-01-01T12:00:00.500Z''\<rparr> ''u'';
        granted = checkAndIncrement config kv
                   \<lparr>getTime = 43260000, toISOString = ''1970-01-01T12:01:00.000Z''\<rparr> ''u''
    in exceededQuota (snd denied) = Some Minute \<and> \<not> q_allowed (snd denied) \<and>
       fst denied = kv \<and>
       exceededQuota (snd granted) = None \<and> q_allowed (snd granted) \<and>
       fst granted = kv(''quota:u'' \<mapsto>
                (QuotaJSON \<lparr>daily = \<lparr>day_count = 4, date = ''1970-01-01''\<rparr>,
                            monthly = \<lparr>month_count = 4, month = ''1970-01''\<rparr>,
                            minute = \<lparr>minute_count = 1, timestamp = 43260000\<rparr>\<rparr>,
                 Some 2764800)))"
  using checkAndIncrement_order
          [where config = "\<lparr>cfg_daily = 5, cfg_monthly = 10, perMinute = 3\<rparr>"
             and userId = "''u''"
             and now = "\<lparr>getTime = 43200500, toISOString = ''1970-01-01T12:00:00.500Z''\<rparr>"
             and kv = "[''quota:u'' \<mapsto>
                (QuotaJSON \<lparr>daily = \<lparr>day_count = 3, date = ''1970-01-01''\<rparr>,
                            monthly = \<lparr>month_count = 3, month = ''1970-01''\<rparr>,
                            minute = \<lparr>minute_count = 3, timestamp = 43200000\<rparr>\<rparr>,
                 Some 2764800)]"]
        checkAndIncrement_order
          [where config = "\<lparr>cfg_daily = 5, cfg_monthly = 10, perMinute = 3\<rparr>"
             and userId = "''u''"
             and now = "\<lparr>getTime = 43260000, toISOString = ''1970-01-01T12:01:00.000Z''\<rparr>"
             and kv = "[''quota:u'' \<mapsto>
                (QuotaJSON \<lparr>daily = \<lparr>day_count = 3, date = ''1970-01-01''\<rparr>,
                            monthly = \<lparr>month_count = 3, month = ''1970-01''\<rparr>,
                            minute = \<lparr>minute_count = 3, timestamp = 43200000\<rparr>\<rparr>,
                 Some 2764800)]"]
  by (simp add: Let_def get_quota_def before_T_def)

text \<open>
  Claim C5. For a stored state whose day (month, minute) identifier is not the current
  one, the counter of that period is 0 when the limits are checked: a denied call
  reports \<open>used = 0\<close> for it and a positive limit of that period is never the one
  exceeded; an allowed call reports and stores the counter 1.
\<close>

theorem checkAndIncrement_rollover:
  assumes stored: "get_quota kv (''quota:'' @ userId) = Some st"
  shows
  "(let today = before_T (toISOString now);
        month_now = take 7 today;
        minuteTs = (getTime now div 60000) * 60000;
        res = checkAndIncrement config kv now userId;
        u = quotas (snd res);
        st' = get_quota (fst res) (''quota:'' @ userId)
    in (date (daily st) \<noteq> today \<longrightarrow>
          (if q_allowed (snd res)
           then used (q_daily u) = 1 \<and> map_option (\<lambda>s. day_count (daily s)) st' = Some 1
           else used (q_daily u) = 0) \<and>
          (0 < cfg_daily config \<longrightarrow> exceededQuota (snd res) \<noteq> Some Daily)) \<and>
       (month (monthly st) \<noteq> month_now \<longrightarrow>
          (if q_allowed (snd res)
           then used (q_monthly u) = 1 \<and> map_option (\<lambda>s. month_count (monthly s)) st' = Some 1
           else used (q_monthly u) = 0) \<and>
          (0 < cfg_monthly config \<longrightarrow> exceededQuota (snd res) \<noteq> Some Monthly)) \<and>
       (timestamp (minute st) \<noteq> minuteTs \<longrightarrow>
          (if q_allowed (snd res)
           then used (q_minute u) = 1 \<and> map_option (\<lambda>s. minute_count (minute s)) st' = Some 1
           else used (q_minute u) = 0) \<and>
          (0 < perMinute config \<longrightarrow> exceededQuota (snd res) \<noteq> Some Minute)))"
proof -
  obtain dc dd mc mm ic it where st: "st = \<lparr>daily = \<lparr>day_count = dc, date = dd\<rparr>,
                         monthly = \<lparr>month_count = mc, month = mm\<rparr>,
                         minute = \<lparr>minute_count = ic, timestamp = it\<rparr>\<rparr>"
    by (rule QuotaState_explicit)
  show ?thesis
    unfolding checkAndIncrement_def Let_def stored option.case
    unfolding st reset_counters_explicit
    by (simp add: check_limits_def increment_counters_explicit quota_report_def get_quota_def)
qed

theorem checkAndIncrement_rollover_witness:
  "(let config = \<lparr>cfg_daily = 5, cfg_monthly = 10, perMinute = 3\<rparr>;
        kv = [''quota:u'' \<mapsto>
                (QuotaJSON \<lparr>daily = \<lparr>day_count = 5, date = ''1970-01-01''\<rparr>,
                            monthly = \<lparr>month_count = 5, month = ''1970-01''\<rparr>,
                            minute = \<lparr>minute_count = 3, timestamp = 43200000\<rparr>\<rparr>,
                 Some 2764800)];
        res = checkAndIncrement config kv
                \<lparr>getTime = 86430000, toISOString = ''1970-01-02T00:00:30.000Z''\<rparr> ''u'';
        u = quotas (snd res)
    in q_allowed (snd res) \<and> used (q_daily u) = 1 \<and> used (q_minute u) = 1 \<and>
       used (q_monthly u) = 6 \<and>
       map_option (\<lambda>s. day_count (daily s)) (get_quota (fst res) ''quota:u'') = Some 1 \<and>
       map_option (\<lambda>s. minute_count (minute s)) (get_quota (fst res) ''quota:u'') = Some 1)"
proof -
  let ?st = "\<lparr>daily = \<lparr>day_count = 5, date = ''1970-01-01''\<rparr>,
              monthly = \<lparr>month_count = 5, month = ''1970-01''\<rparr>,
              minute = \<lparr>minute_count = 3, timestamp = 43200000\<rparr>\<rparr>"
  let ?kv = "[''quota:u'' \<mapsto> (QuotaJSON ?st, Some (2764800::int))]"
  let ?config = "\<lparr>cfg_daily = 5, cfg_monthly = 10, perMinute = 3\<rparr>"
  let ?now = "\<lparr>getTime = 86430000, toISOString = ''1970-01-02T00:00:30.000Z''\<rparr>"
  have s: "get_quota ?kv (''quota:'' @ ''u'') = Some ?st" by (simp add: get_quota_def)
  have a: "q_allowed (snd (checkAndIncrement ?config ?kv ?now ''u''))"
    by (simp add: checkAndIncrement_def reset_counters_def check_limits_def get_quota_def
          before_T_def Let_def)
  have m: "used (q_monthly (quotas (snd (checkAndIncrement ?config ?kv ?now ''u'')))) = 6"
    by (simp add: checkAndIncrement_def reset_counters_def check_limits_def get_quota_def
          increment_counters_def quota_report_def before_T_def Let_def)
  note r = checkAndIncrement_rollover [where kv = "?kv" and userId = "''u''" and st = "?st"
             and config = "?config" and now = "?now", OF s]
  show ?thesis
    using r a m by (simp add: Let_def before_T_def)
qed

subsection \<open>Fixed-window middleware\<close>

lemma int_toString_100: "int_toString 100 = ''100''"
  by (simp add: int_toString_def digit_char_def)

text \<open>
  Claim C7, as the code has it. When the window counter has reached the maximum (100)
  the request is answered with status 429, the JSON body \<open>{error, message, retryAfter}\<close>
  and the three headers \<open>X-RateLimit-Limit\<close>, \<open>X-RateLimit-Remaining: 0\<close> and
  \<open>X-RateLimit-Reset\<close>; no \<open>Retry-After\<close> header is set, and nothing is written.
  When the \<open>get\<close> throws, or the counter is below the maximum and the \<open>put\<close> throws,
  the request goes to the next handler and the error is logged.
\<close>

theorem rateLimiter_deny_and_fail_open:
  assumes kv: "RATE_LIMIT c = Some kv"
  shows
  "(let windowStart = (now div 60000) * 60000;
        windowKey = ''rl:'' @ client_id c @ '':'' @ int_toString windowStart;
        cnt = read_count (map_option fst (entries kv windowKey));
        retry = \<lceil>real_of_int (windowStart + 60000 - now) / 1000\<rceil>;
        out = rateLimiter c now
    in (\<not> get_throws kv \<and> num_ge cnt 100 \<longrightarrow>
          action out =
            Json \<lparr>error = ''Too Many Requests'',
                  message = ''Rate limit exceeded. Try again in '' @ int_toString retry @ '' seconds'',
                  body_retryAfter = Some retry\<rparr> 429 \<and>
          res_headers out =
            [(''X-RateLimit-Limit'', ''100''), (''X-RateLimit-Remaining'', ''0''),
             (''X-RateLimit-Reset'', int_toString (windowStart + 60000))] \<and>
          map_of (res_headers out) ''Retry-After'' = None \<and>
          kv_after out = Some kv) \<and>
       (get_throws kv \<or> (\<not> num_ge cnt 100 \<and> put_throws kv) \<longrightarrow>
          action out = Next \<and> logged out = [''Rate limit error:''] \<and> kv_after out = Some kv))"
proof (cases "get_throws kv")
  case True
  then show ?thesis
    using kv by (simp add: rateLimiter_def defaultConfig_def kv_get_def Let_def)
next
  case False
  then show ?thesis
    using kv
    by (simp add: rateLimiter_def defaultConfig_def kv_get_def kv_put_def Let_def int_toString_100)
qed

theorem rateLimiter_deny_and_fail_open_witness:
  "(let full = \<lparr>entries = [''rl:anonymous:0'' \<mapsto> (''100'', 120)],
                get_throws = False, put_throws = False\<rparr>;
        c = \<lparr>path = ''/api/echo'', req_header = Map.empty, RATE_LIMIT = Some full, API_KEYS = None\<rparr>;
        down = \<lparr>entries = Map.empty, get_throws = True, put_throws = True\<rparr>;
        c' = \<lparr>path = ''/api/echo'', req_header = Map.empty, RATE_LIMIT = Some down, API_KEYS = None\<rparr>;
        out = rateLimiter c 30000;
        out' = rateLimiter c' 30000
    in action out = Json \<lparr>error = ''Too Many Requests'',
                          message = ''Rate limit exceeded. Try again in 30 seconds'',
                          body_retryAfter = Some 30\<rparr> 429 \<and>
       res_headers out = [(''X-RateLimit-Limit'', ''100''), (''X-RateLimit-Remaining'', ''0''),
                          (''X-RateLimit-Reset'', ''60000'')] \<and>
       kv_after out = Some full \<and>
       action out' = Next \<and> logged out' = [''Rate limit error:''] \<and> kv_after out' = Some down)"
proof -
  let ?full = "\<lparr>entries = [''rl:anonymous:0'' \<mapsto> (''100'', 120::int)],
                get_throws = False, put_throws = False\<rparr>"
  let ?c = "\<lparr>path = ''/api/echo'', req_header = Map.empty, RATE_LIMIT = Some ?full, API_KEYS = None\<rparr>"
  let ?down = "\<lparr>entries = Map.empty :: string \<rightharpoonup> (string \<times> int), get_throws = True, put_throws = True\<rparr>"
  let ?c' = "\<lparr>path = ''/api/echo'', req_header = Map.empty, RATE_LIMIT = Some ?down, API_KEYS = None\<rparr>"
  have k: "RATE_LIMIT ?c = Some ?full" by simp
  have k': "RATE_LIMIT ?c' = Some ?down" by simp
  note d = rateLimiter_deny_and_fail_open [where c = "?c" and kv = "?full" and now = 30000, OF k]
  note f = rateLimiter_deny_and_fail_open [where c = "?c'" and kv = "?down" and now = 30000, OF k']
  show ?thesis
    using d f
    by (simp add: Let_def client_id_def truthy_def read_count_def num_ge_def int_toString_def
          digit_char_def parseInt_def is_space_def is_digit_def digits_value_def digit_val_def)
qed

text \<open>
  The claim as stated lists a \<open>Retry-After\<close> header on the 429 answer. With the counter
  of the anonymous client at 100 in the current window, the answer is the 429 and its
  headers have no \<open>Retry-After\<close>.
\<close>

theorem rateLimiter_no_Retry_After_header:
  "action (rateLimiter \<lparr>path = ''/api/echo'', req_header = Map.empty,
             RATE_LIMIT = Some \<lparr>entries = [''rl:anonymous:0'' \<mapsto> (''100'', 120)],
                                 get_throws = False, put_throws = False\<rparr>,
             API_KEYS = None\<rparr> 30000) =
     Json \<lparr>error = ''Too Many Requests'',
           message = ''Rate limit exceeded. Try again in 30 seconds'',
           body_retryAfter = Some 30\<rparr> 429 \<and>
   map_of (res_headers (rateLimiter \<lparr>path = ''/api/echo'', req_header = Map.empty,
             RATE_LIMIT = Some \<lparr>entries = [''rl:anonymous:0'' \<mapsto> (''100'', 120)],
                                 get_throws = False, put_throws = False\<rparr>,
             API_KEYS = None\<rparr> 30000)) ''Retry-After'' = None"
  by (simp add: rateLimiter_def defaultConfig_def client_id_def truthy_def kv_get_def read_count_def
        num_ge_def int_toString_def digit_char_def parseInt_def is_space_def is_digit_def
        digits_value_def digit_val_def Let_def)

subsection \<open>Authentication\<close>

lemma unauthorized_not_Next: "unauthorized msg \<noteq> Next"
  by (simp add: unauthorized_def)

lemma unauthorized_401: "(\<exists>b. unauthorized msg = Json b 401)"
  by (simp add: unauthorized_def)

lemma auth_cases:
  "auth c =
     (if path c \<noteq> ''/health'' \<and> truthy (req_header c ''X-API-Key'') \<and>
         valid_keys (API_KEYS c) \<noteq> [] \<and>
         the (req_header c ''X-API-Key'') \<notin> set (valid_keys (API_KEYS c))
      then unauthorized ''Invalid API key'' else Next)"
  by (simp add: auth_def Let_def)

lemma valid_keys_disabled: "\<not> truthy keys \<Longrightarrow> valid_keys keys = []"
  by (simp add: valid_keys_def)

text \<open>
  Claim C8, as the code has it. \<open>auth\<close> answers 401 exactly when the path is not
  \<open>/health\<close>, a non-empty \<open>X-API-Key\<close> is present, the configured key set is not
  empty and the key is not in it; every other request passes: \<open>/health\<close>, an empty or
  absent \<open>API_KEYS\<close>, and a request without a non-empty \<open>X-API-Key\<close> whatever its
  \<open>Authorization\<close> header. \<open>requireAuth\<close> answers 401 when neither header has a
  non-empty value and is \<open>auth\<close> otherwise.
\<close>

theorem auth_rejects_iff:
  "(let apiKey = req_header c ''X-API-Key'';
        authHeader = req_header c ''Authorization'';
        validKeys = valid_keys (API_KEYS c)
    in ((\<exists>b. auth c = Json b 401) \<longleftrightarrow>
          path c \<noteq> ''/health'' \<and> truthy apiKey \<and> validKeys \<noteq> [] \<and> the apiKey \<notin> set validKeys) \<and>
       ((\<forall>b. auth c \<noteq> Json b 401) \<longrightarrow> auth c = Next) \<and>
       (path c = ''/health'' \<longrightarrow> auth c = Next) \<and>
       (\<not> truthy (API_KEYS c) \<longrightarrow> validKeys = [] \<and> auth c = Next) \<and>
       (\<not> truthy apiKey \<longrightarrow> auth c = Next) \<and>
       (\<not> truthy apiKey \<and> \<not> truthy authHeader \<longrightarrow> (\<exists>b. requireAuth c = Json b 401)) \<and>
       (truthy apiKey \<or> truthy authHeader \<longrightarrow> requireAuth c = auth c))"
proof -
  have r: "(\<exists>b. auth c = Json b 401) \<longleftrightarrow>
          path c \<noteq> ''/health'' \<and> truthy (req_header c ''X-API-Key'') \<and>
          valid_keys (API_KEYS c) \<noteq> [] \<and>
          the (req_header c ''X-API-Key'') \<notin> set (valid_keys (API_KEYS c))"
    unfolding auth_cases by (simp add: unauthorized_def)
  have n: "(\<forall>b. auth c \<noteq> Json b 401) \<longrightarrow> auth c = Next"
    unfolding auth_cases by (simp add: unauthorized_def)
  have h: "path c = ''/health'' \<longrightarrow> auth c = Next"
    by (simp add: auth_cases)
  have d: "\<not> truthy (API_KEYS c) \<longrightarrow> valid_keys (API_KEYS c) = [] \<and> auth c = Next"
    by (simp add: auth_cases valid_keys_disabled)
  have k: "\<not> truthy (req_header c ''X-API-Key'') \<longrightarrow> auth c = Next"
    by (simp add: auth_cases)
  have s: "\<not> truthy (req_header c ''X-API-Key'') \<and> \<not> truthy (req_header c ''Authorization'') \<longrightarrow>
             (\<exists>b. requireAuth c = Json b 401)"
    by (simp add: requireAuth_def unauthorized_def)
  have t: "truthy (req_header c ''X-API-Key'') \<or> truthy (req_header c ''Authorization'') \<longrightarrow>
             requireAuth c = auth c"
    by (auto simp: requireAuth_def)
  show ?thesis
    unfolding Let_def using r n h d k s t by blast
qed

theorem auth_rejects_iff_witness:
  "(let bad = \<lparr>path = ''/api/echo'', req_header = [''X-API-Key'' \<mapsto> ''bad''],
               RATE_LIMIT = None, API_KEYS = Some ''good,better''\<rparr>;
        good = \<lparr>path = ''/api/echo'', req_header = [''X-API-Key'' \<mapsto> ''better''],
               RATE_LIMIT = None, API_KEYS = Some ''good,better''\<rparr>;
        bearer = \<lparr>path = ''/api/echo'', req_header = [''Authorization'' \<mapsto> ''Bearer abc''],
               RATE_LIMIT = None, API_KEYS = Some ''good,better''\<rparr>;
        nothing = \<lparr>path = ''/api/echo'', req_header = Map.empty,
               RATE_LIMIT = None, API_KEYS = Some ''good,better''\<rparr>
    in (\<exists>b. auth bad = Json b 401) \<and> auth good = Next \<and> auth bearer = Next \<and>
       requireAuth bearer = Next \<and> auth nothing = Next \<and>
       (\<exists>b. requireAuth nothing = Json b 401))"
proof -
  let ?bad = "\<lparr>path = ''/api/echo'', req_header = [''X-API-Key'' \<mapsto> ''bad''],
               RATE_LIMIT = None, API_KEYS = Some ''good,better''\<rparr>"
  let ?good = "\<lparr>path = ''/api/echo'', req_header = [''X-API-Key'' \<mapsto> ''better''],
               RATE_LIMIT = None, API_KEYS = Some ''good,better''\<rparr>"
  let ?bearer = "\<lparr>path = ''/api/echo'', req_header = [''Authorization'' \<mapsto> ''Bearer abc''],
               RATE_LIMIT = None, API_KEYS = Some ''good,better''\<rparr>"
  let ?nothing = "\<lparr>path = ''/api/echo'', req_header = Map.empty,
               RATE_LIMIT = None, API_KEYS = Some ''good,better''\<rparr>"
  have vk: "valid_keys (Some ''good,better'') = [''good'', ''better'']"
    by (simp add: valid_keys_def truthy_def)
  have 1: "\<exists>b. auth ?bad = Json b 401"
    using auth_rejects_iff [of ?bad] by (simp add: Let_def vk truthy_def)
  have 2: "auth ?good = Next"
    using auth_rejects_iff [of ?good] by (simp add: Let_def vk truthy_def)
  have 3: "auth ?bearer = Next \<and> requireAuth ?bearer = Next"
    using auth_rejects_iff [of ?bearer] by (simp add: Let_def vk truthy_def)
  have 4: "auth ?nothing = Next \<and> (\<exists>b. requireAuth ?nothing = Json b 401)"
    using auth_rejects_iff [of ?nothing] by (simp add: Let_def vk truthy_def)
  show ?thesis
    unfolding Let_def using 1 2 3 4 by blast
qed

text \<open>
  The claim as stated has no exception for \<open>/health\<close> and counts an empty
  \<open>X-API-Key\<close> as present: a \<open>/health\<close> request with a wrong key passes, and so does a
  request whose \<open>X-API-Key\<close> is the empty string, with the key set \<open>good\<close> configured.
\<close>

theorem auth_health_and_empty_key_pass:
  "auth \<lparr>path = ''/health'', req_header = [''X-API-Key'' \<mapsto> ''bad''],
         RATE_LIMIT = None, API_KEYS = Some ''good''\<rparr> = Next \<and>
   valid_keys (Some ''good'') = [''good''] \<and>
   ''bad'' \<notin> set (valid_keys (Some ''good'')) \<and>
   auth \<lparr>path = ''/api/echo'', req_header = [''X-API-Key'' \<mapsto> ''''],
         RATE_LIMIT = None, API_KEYS = Some ''good''\<rparr> = Next"
  by (simp add: auth_def valid_keys_def truthy_def Let_def)

subsection \<open>Metrics\<close>

lemma percentile_defined:
  assumes "xs \<noteq> []" and "0 \<le> p" and "p \<le> 100"
  shows "percentile xs p = Some (xs ! nat (max 0 (\<lceil>(p / 100) * real (length xs)\<rceil> - 1)))"
    and "nat (max 0 (\<lceil>(p / 100) * real (length xs)\<rceil> - 1)) < length xs"
proof -
  have n: "0 < length xs" using assms(1) by simp
  have "(p / 100) * real (length xs) \<le> 1 * real (length xs)"
    using assms(3) by (intro mult_right_mono) auto
  then have "\<lceil>(p / 100) * real (length xs)\<rceil> \<le> int (length xs)"
    by (simp add: ceiling_le_iff)
  then have b: "max 0 (\<lceil>(p / 100) * real (length xs)\<rceil> - 1) < int (length xs)"
    using n by simp
  then show "nat (max 0 (\<lceil>(p / 100) * real (length xs)\<rceil> - 1)) < length xs"
    using n by linarith
  show "percentile xs p = Some (xs ! nat (max 0 (\<lceil>(p / 100) * real (length xs)\<rceil> - 1)))"
    using b by (simp add: percentile_def js_index_def Let_def)
qed

lemma percentile_mono:
  assumes srt: "sorted xs" and ne: "xs \<noteq> []"
    and pq: "0 \<le> p" "p \<le> q" "q \<le> 100"
  shows "\<exists>a b. percentile xs p = Some a \<and> percentile xs q = Some b \<and> a \<le> b"
proof -
  let ?i = "\<lambda>r. nat (max 0 (\<lceil>(r / 100) * real (length xs)\<rceil> - 1))"
  have "(p / 100) * real (length xs) \<le> (q / 100) * real (length xs)"
    using pq by (intro mult_right_mono) auto
  then have "\<lceil>(p / 100) * real (length xs)\<rceil> \<le> \<lceil>(q / 100) * real (length xs)\<rceil>"
    by (rule ceiling_mono)
  then have ij: "?i p \<le> ?i q" by simp
  have "0 \<le> q" using pq by simp
  note q = percentile_defined [OF ne \<open>0 \<le> q\<close> pq(3)]
  have "p \<le> 100" using pq by simp
  note p = percentile_defined [OF ne pq(1) \<open>p \<le> 100\<close>]
  have "xs ! ?i p \<le> xs ! ?i q"
    using srt ij q(2) by (rule sorted_nth_mono)
  with p(1) q(1) show ?thesis by simp
qed

lemma percentile_le_last:
  assumes srt: "sorted xs" and ne: "xs \<noteq> []" and p: "0 \<le> p" "p \<le> 100"
  shows "\<exists>a d. percentile xs p = Some a \<and> js_index xs (int (length xs) - 1) = Some d \<and> a \<le> d"
proof -
  note d = percentile_defined [OF ne p]
  have n: "0 < length xs" using ne by simp
  have l: "js_index xs (int (length xs) - 1) = Some (xs ! (length xs - 1))"
    using n by (simp add: js_index_def nat_diff_distrib')
  have "xs ! nat (max 0 (\<lceil>(p / 100) * real (length xs)\<rceil> - 1)) \<le> xs ! (length xs - 1)"
    using srt _ _ by (rule sorted_nth_mono) (use d(2) n in auto)
  with d(1) l show ?thesis by simp
qed

text \<open>
  Claim C9. Whenever a metric lies in the aggregation window, the latency block of
  \<open>getAggregated\<close> has defined percentiles and maximum with
  \<open>p50 \<le> p95 \<le> p99 \<le> max\<close>.
\<close>

theorem getAggregated_percentiles_ordered:
  "(let cutoff = real_of_int now - windowMinutes * 60 * 1000;
        relevant = filter (\<lambda>m. real_of_int (m_timestamp m) \<ge> cutoff) metrics;
        lat = latency (getAggregated metrics now windowMinutes)
    in relevant \<noteq> [] \<longrightarrow>
         (\<exists>a b c d. p50 lat = Some a \<and> p95 lat = Some b \<and> p99 lat = Some c \<and>
                     lat_max lat = Some d \<and> a \<le> b \<and> b \<le> c \<and> c \<le> d))"
proof -
  define relevant where
    "relevant = filter (\<lambda>m. real_of_int (m_timestamp m) \<ge> real_of_int now - windowMinutes * 60 * 1000) metrics"
  define xs where "xs = sort (map latencyMs relevant)"
  have lat: "latency (getAggregated metrics now windowMinutes) =
      \<lparr>avg = real_of_int (sum_list xs) / real (length xs),
       p50 = percentile xs 50, p95 = percentile xs 95, p99 = percentile xs 99,
       lat_min = js_index xs 0, lat_max = js_index xs (int (length xs) - 1)\<rparr>"
    if "relevant \<noteq> []"
    using that unfolding getAggregated_def Let_def relevant_def [symmetric] xs_def [symmetric]
    by simp
  have goal: "\<exists>a b c d. percentile xs 50 = Some a \<and> percentile xs 95 = Some b \<and>
        percentile xs 99 = Some c \<and> js_index xs (int (length xs) - 1) = Some d \<and>
        a \<le> b \<and> b \<le> c \<and> c \<le> d" if ne: "relevant \<noteq> []"
  proof -
    have srt: "sorted xs" by (simp add: xs_def)
    have "length xs = length relevant" by (simp add: xs_def)
    then have xne: "xs \<noteq> []" using ne by auto
    obtain a b where ab: "percentile xs 50 = Some a" "percentile xs 95 = Some b" "a \<le> b"
      using percentile_mono [OF srt xne, of 50 95] by auto
    obtain b' c where bc: "percentile xs 95 = Some b'" "percentile xs 99 = Some c" "b' \<le> c"
      using percentile_mono [OF srt xne, of 95 99] by auto
    obtain c' d where cd: "percentile xs 99 = Some c'" "js_index xs (int (length xs) - 1) = Some d" "c' \<le> d"
      using percentile_le_last [OF srt xne, of 99] by auto
    from ab bc cd show ?thesis by auto
  qed
  show ?thesis
    unfolding Let_def relevant_def [symmetric]
    using lat goal by auto
qed

theorem getAggregated_percentiles_ordered_witness:
  "(let ms = [\<lparr>m_path = ''/api/a'', http_method = ''GET'', statusCode = 200, latencyMs = 30,
               m_timestamp = 1000, upstream = None, cached = False\<rparr>,
              \<lparr>m_path = ''/api/b'', http_method = ''GET'', statusCode = 500, latencyMs = 10,
               m_timestamp = 2000, upstream = None, cached = False\<rparr>,
              \<lparr>m_path = ''/api/a'', http_method = ''POST'', statusCode = 200, latencyMs = 20,
               m_timestamp = 3000, upstream = None, cached = True\<rparr>];
        lat = latency (getAggregated ms 4000 5)
    in filter (\<lambda>m. real_of_int (m_timestamp m) \<ge> real_of_int 4000 - 5 * 60 * 1000) ms \<noteq> [] \<and>
       p50 lat = Some 20 \<and> p95 lat = Some 30 \<and> p99 lat = Some 30 \<and> lat_max lat = Some 30 \<and>
       (\<exists>a b c d. p50 lat = Some a \<and> p95 lat = Some b \<and> p99 lat = Some c \<and>
                   lat_max lat = Some d \<and> a \<le> b \<and> b \<le> c \<and> c \<le> d))"
  using getAggregated_percentiles_ordered
          [where now = 4000 and windowMinutes = 5 and metrics =
             "[\<lparr>m_path = ''/api/a'', http_method = ''GET'', statusCode = 200, latencyMs = 30,
               m_timestamp = 1000, upstream = None, cached = False\<rparr>,
              \<lparr>m_path = ''/api/b'', http_method = ''GET'', statusCode = 500, latencyMs = 10,
               m_timestamp = 2000, upstream = None, cached = False\<rparr>,
              \<lparr>m_path = ''/api/a'', http_method = ''POST'', statusCode = 200, latencyMs = 20,
               m_timestamp = 3000, upstream = None, cached = True\<rparr>]"]
  by (simp add: Let_def getAggregated_def percentile_def js_index_def)

end
